theory Spec2Isabelle
  imports Main "HOL-Library.AList" "HOL-Library.List_Lexorder" "HOL-Library.Char_ord"
begin

section \<open>Go library functions used by the program (Unix semantics)\<close>

text \<open>
  Go strings are byte sequences; they are modelled as \<open>string\<close> (a list of
  \<open>char\<close>). Every separator the program hands to \<open>strings.Split\<close> is one
  byte long (\<open>:\<close>, \<open>/\<close>, \<open>~\<close>), so the separator is a \<open>char\<close> here.
\<close>

subsection \<open>Package strings\<close>

definition strings_HasPrefix :: "string \<Rightarrow> string \<Rightarrow> bool" where
  "strings_HasPrefix s pre = (take (length pre) s = pre)"

fun strings_Contains :: "string \<Rightarrow> string \<Rightarrow> bool" where
  "strings_Contains [] sub = (sub = [])"
| "strings_Contains (c # cs) sub =
     (strings_HasPrefix (c # cs) sub \<or> strings_Contains cs sub)"

definition strings_TrimPrefix :: "string \<Rightarrow> string \<Rightarrow> string" where
  "strings_TrimPrefix s pre =
     (if strings_HasPrefix s pre then drop (length pre) s else s)"

fun strings_Split :: "string \<Rightarrow> char \<Rightarrow> string list" where
  "strings_Split [] sep = [[]]"
| "strings_Split (c # cs) sep =
     (if c = sep then [] # strings_Split cs sep
      else (case strings_Split cs sep of
              [] \<Rightarrow> [[c]]
            | p # ps \<Rightarrow> (c # p) # ps))"

fun strings_Join :: "string list \<Rightarrow> string \<Rightarrow> string" where
  "strings_Join [] sep = []"
| "strings_Join [x] sep = x"
| "strings_Join (x # y # ys) sep = x @ sep @ strings_Join (y # ys) sep"

subsection \<open>Package path/filepath\<close>

text \<open>
  \<open>filepath.Clean\<close> scans the path element by element: empty elements and
  \<open>.\<close> are dropped, \<open>..\<close> removes the last real element when there is one,
  is kept in front of a relative path and dropped at the root. \<open>out\<close> is the
  output written so far, as a list of elements.
\<close>

fun clean_elems :: "bool \<Rightarrow> string list \<Rightarrow> string list \<Rightarrow> string list" where
  "clean_elems rooted out [] = out"
| "clean_elems rooted out (e # es) =
     (if e = [] \<or> e = ''.'' then clean_elems rooted out es
      else if e = ''..'' then
        (if out \<noteq> [] \<and> last out \<noteq> ''..'' then clean_elems rooted (butlast out) es
         else if \<not> rooted then clean_elems rooted (out @ [''..'']) es
         else clean_elems rooted out es)
      else clean_elems rooted (out @ [e]) es)"

definition filepath_Clean :: "string \<Rightarrow> string" where
  "filepath_Clean path =
     (if path = [] then ''.''
      else
        let rooted = (hd path = CHR ''/'');
            out = clean_elems rooted [] (strings_Split path CHR ''/'');
            s = (if rooted then ''/'' else []) @ strings_Join out ''/''
        in if s = [] then ''.'' else s)"

fun filepath_Join :: "string list \<Rightarrow> string" where
  "filepath_Join [] = []"
| "filepath_Join (e # es) =
     (if e \<noteq> [] then filepath_Clean (strings_Join (e # es) ''/'')
      else filepath_Join es)"

definition filepath_Base :: "string \<Rightarrow> string" where
  "filepath_Base path =
     (if path = [] then ''.''
      else
        let p = rev (dropWhile (\<lambda>c. c = CHR ''/'') (rev path));
            b = rev (takeWhile (\<lambda>c. c \<noteq> CHR ''/'') (rev p))
        in if b = [] then ''/'' else b)"

definition filepath_Dir :: "string \<Rightarrow> string" where
  "filepath_Dir path =
     filepath_Clean (rev (dropWhile (\<lambda>c. c \<noteq> CHR ''/'') (rev path)))"

definition filepath_IsAbs :: "string \<Rightarrow> bool" where
  "filepath_IsAbs path = strings_HasPrefix path ''/''"

section \<open>Errors\<close>

text \<open>
  A Go \<open>error\<close> value: one made by \<open>errors.New\<close> (its message), an
  operating-system error (\<open>*PathError\<close>: operation, path, reason;
  \<open>*LinkError\<close>: operation, old, new, reason), an error wrapped by
  \<open>fmt.Errorf\<close> behind a prefix, the pair that \<open>SaveFiles\<close> builds when
  restoring the original fails, and the sentinel \<open>filepath.SkipDir\<close>.
\<close>

datatype errno =
    ENOENT | EEXIST | EACCES | EPERM | EIO | EINVAL | EISDIR | ENOTDIR | ENOTEMPTY | ELOOP

datatype error =
    New string
  | PathError string string errno
  | LinkError string string string errno
  | Errorf string error
  | Critical error error
  | SkipDir

fun errno_string :: "errno \<Rightarrow> string" where
  "errno_string ENOENT = ''no such file or directory''"
| "errno_string EEXIST = ''file exists''"
| "errno_string EACCES = ''permission denied''"
| "errno_string EPERM = ''operation not permitted''"
| "errno_string EIO = ''input/output error''"
| "errno_string EINVAL = ''invalid argument''"
| "errno_string EISDIR = ''is a directory''"
| "errno_string ENOTDIR = ''not a directory''"
| "errno_string ENOTEMPTY = ''directory not empty''"
| "errno_string ELOOP = ''too many levels of symbolic links''"

text \<open>The text of an error, as \<open>%v\<close> prints it.\<close>

fun error_string :: "error \<Rightarrow> string" where
  "error_string (New msg) = msg"
| "error_string (PathError operation path e) =
     operation @ '' '' @ path @ '': '' @ errno_string e"
| "error_string (LinkError operation old new e) =
     operation @ '' '' @ old @ '' '' @ new @ '': '' @ errno_string e"
| "error_string (Errorf prefix err) = prefix @ error_string err"
| "error_string (Critical restoreErr err) =
     ''CRITICAL: failed to restore file after error (data is in storage): ''
       @ error_string restoreErr @ '' (original error: '' @ error_string err @ '')''"
| "error_string SkipDir = ''skip this directory''"

definition os_IsNotExist :: "error \<Rightarrow> bool" where
  "os_IsNotExist err =
     (case err of PathError _ _ e \<Rightarrow> e = ENOENT | LinkError _ _ _ e \<Rightarrow> e = ENOENT | _ \<Rightarrow> False)"

definition os_IsExist :: "error \<Rightarrow> bool" where
  "os_IsExist err =
     (case err of
        PathError _ _ e \<Rightarrow> e = EEXIST \<or> e = ENOTEMPTY
      | LinkError _ _ _ e \<Rightarrow> e = EEXIST \<or> e = ENOTEMPTY
      | _ \<Rightarrow> False)"

section \<open>Package git: ExtractRepoName\<close>

definition ExtractRepoName :: "string \<Rightarrow> error + string" where
  "ExtractRepoName remoteURL =
     (if remoteURL = [] then Inl (New ''remote URL is empty'')
      else
        let url = remoteURL in
        if strings_HasPrefix url ''git@'' \<and> \<not> strings_Contains url '':'' then
          Inl (New (''invalid SSH URL format: '' @ remoteURL))
        else if strings_Contains url '':'' \<and> strings_HasPrefix url ''git@'' then
          (let parts = strings_Split url CHR '':'' in
           if length parts < 2 \<or> parts ! 1 = [] then
             Inl (New (''invalid SSH URL format: '' @ remoteURL))
           else
             let path = last parts;
                 segments = strings_Split path CHR ''/''
             in if length segments = 0 \<or> last segments = [] then
                  Inl (New (''invalid SSH URL format: '' @ remoteURL))
                else Inr (last segments))
        else if strings_HasPrefix url ''http://'' \<or> strings_HasPrefix url ''https://'' then
          (let url1 = strings_TrimPrefix url ''https://'';
               url2 = strings_TrimPrefix url1 ''http://'';
               segments = strings_Split url2 CHR ''/''
           in if length segments < 2 then
                Inl (New (''invalid HTTPS URL format: '' @ remoteURL))
              else Inr (last segments))
        else Inl (New (''unsupported URL format: '' @ remoteURL)))"

section \<open>Package storage: the path converter\<close>

record PathConverter =
  StorageRoot :: string
  RepoName :: string

definition ValidatePath :: "string \<Rightarrow> error option" where
  "ValidatePath path =
     (if strings_Contains path ''~'' then
        Some (New ''path contains ~ character which is not supported'')
      else None)"

definition ConvertToStorageName :: "PathConverter \<Rightarrow> string \<Rightarrow> error + string" where
  "ConvertToStorageName pc repoRelativePath =
     (case ValidatePath repoRelativePath of
        Some err \<Rightarrow> Inl err
      | None \<Rightarrow>
          let cleaned = filepath_Clean repoRelativePath in
          if cleaned = ''CLAUDE.md'' \<or> cleaned = filepath_Base repoRelativePath then
            Inr (filepath_Base repoRelativePath)
          else
            let parts = strings_Split cleaned CHR ''/''
            in Inr (strings_Join parts ''~''))"

definition ConvertToRepoPath :: "PathConverter \<Rightarrow> string \<Rightarrow> string" where
  "ConvertToRepoPath pc storageFilename =
     (if \<not> strings_Contains storageFilename ''~'' then
        (if strings_Contains storageFilename ''..'' then [] else storageFilename)
      else
        let parts = strings_Split storageFilename CHR ''~'' in
        if list_ex (\<lambda>part. part = ''..'' \<or> strings_Contains part ''..'') parts then []
        else filepath_Join parts)"

definition GetRepoStorageDir :: "PathConverter \<Rightarrow> string" where
  "GetRepoStorageDir pc = filepath_Join [StorageRoot pc, RepoName pc]"

definition GetStoragePath :: "PathConverter \<Rightarrow> string \<Rightarrow> error + string" where
  "GetStoragePath pc repoRelativePath =
     (case ConvertToStorageName pc repoRelativePath of
        Inl err \<Rightarrow> Inl err
      | Inr storageName \<Rightarrow> Inr (filepath_Join [GetRepoStorageDir pc, storageName]))"

definition strings_HasSuffix :: "string \<Rightarrow> string \<Rightarrow> bool" where
  "strings_HasSuffix s suf = strings_HasPrefix (rev s) (rev suf)"

text \<open>
  Lower case of an ASCII letter; every other byte is kept. The program
  folds case only to compare with \<open>CLAUDE.md\<close>, whose letters have no
  non-ASCII case variants.
\<close>

definition toLower :: "char \<Rightarrow> char" where
  "toLower c =
     (case map_of (zip ''ABCDEFGHIJKLMNOPQRSTUVWXYZ'' ''abcdefghijklmnopqrstuvwxyz'') c of
        Some l \<Rightarrow> l
      | None \<Rightarrow> c)"

definition strings_ToLower :: "string \<Rightarrow> string" where
  "strings_ToLower s = map toLower s"

definition strings_EqualFold :: "string \<Rightarrow> string \<Rightarrow> bool" where
  "strings_EqualFold s t = (map toLower s = map toLower t)"

section \<open>The operating system\<close>

text \<open>
  The file system is a tree: a regular file with its content, a symbolic
  link with its target, or a directory with its named entries. The world
  holds the tree below \<open>/\<close>, the working directory, the value of
  \<open>$HOME\<close>, and the calls that the system refuses for a reason the tree
  does not show (permissions, read-only or append-only directories, I/O
  errors), each with the reason it gives.
\<close>

datatype node = Regular string | Link string | Directory "(string \<times> node) list"

datatype syscall =
    SysGetwd
  | SysLstat string
  | SysStat string
  | SysReadlink string
  | SysReadDir string
  | SysReadFile string
  | SysOpenFile string
  | SysWrite string
  | SysWriteFile string
  | SysRemove string
  | SysSymlink string string
  | SysMkdirAll string

record world =
  tree :: node
  wd :: string
  HOME :: string
  refused :: "syscall \<Rightarrow> errno option"

fun IsDir :: "node \<Rightarrow> bool" where
  "IsDir (Directory es) = True"
| "IsDir n = False"

fun ModeSymlink :: "node \<Rightarrow> bool" where
  "ModeSymlink (Link t) = True"
| "ModeSymlink n = False"

text \<open>
  The place a path names: its elements from the root, a relative path being
  taken from the working directory. Symbolic links in the middle of a path
  are not followed.
\<close>

definition locate :: "world \<Rightarrow> string \<Rightarrow> string list" where
  "locate w path =
     filter (\<lambda>e. e \<noteq> [])
       (strings_Split
          (filepath_Clean (if filepath_IsAbs path then path else wd w @ ''/'' @ path))
          CHR ''/'')"

fun lookup :: "node \<Rightarrow> string list \<Rightarrow> node option" where
  "lookup n [] = Some n"
| "lookup (Directory es) (c # cs) =
     (case map_of es c of None \<Rightarrow> None | Some m \<Rightarrow> lookup m cs)"
| "lookup n (c # cs) = None"

text \<open>
  \<open>put n cs v\<close> sets the entry at place \<open>cs\<close> to \<open>v\<close>, or removes it when
  \<open>v\<close> is \<open>None\<close>; the tree is unchanged when the parent of \<open>cs\<close> is not a
  directory of the tree.
\<close>

fun put :: "node \<Rightarrow> string list \<Rightarrow> node option \<Rightarrow> node" where
  "put (Directory es) [c] v =
     Directory (case v of None \<Rightarrow> AList.delete c es | Some m \<Rightarrow> AList.update c m es)"
| "put (Directory es) (c # d # cs) v =
     (case map_of es c of
        None \<Rightarrow> Directory es
      | Some m \<Rightarrow> Directory (AList.update c (put m (d # cs) v) es))"
| "put n cs v = n"

definition parent_is_dir :: "node \<Rightarrow> string list \<Rightarrow> bool" where
  "parent_is_dir t cs =
     (cs \<noteq> [] \<and> (case lookup t (butlast cs) of Some (Directory es) \<Rightarrow> True | _ \<Rightarrow> False))"

text \<open>
  Following the symbolic link at the end of a path, at most \<open>k\<close> times. The
  result is the place of the first entry that is not a link (or is absent).
\<close>

fun resolve :: "nat \<Rightarrow> world \<Rightarrow> string \<Rightarrow> errno + string list" where
  "resolve 0 w path = Inl ELOOP"
| "resolve (Suc k) w path =
     (case lookup (tree w) (locate w path) of
        Some (Link t) \<Rightarrow>
          resolve k w (if filepath_IsAbs t then t else filepath_Join [filepath_Dir path, t])
      | _ \<Rightarrow> Inr (locate w path))"

definition maxSymlinks :: nat where
  "maxSymlinks = 40"

definition os_Getwd :: "world \<Rightarrow> error + string" where
  "os_Getwd w =
     (case refused w SysGetwd of
        Some e \<Rightarrow> Inl (PathError ''getwd'' ''.'' e)
      | None \<Rightarrow> Inr (wd w))"

definition os_UserHomeDir :: "world \<Rightarrow> error + string" where
  "os_UserHomeDir w =
     (if HOME w \<noteq> [] then Inr (HOME w) else Inl (New ''$HOME is not defined''))"

definition os_Lstat :: "string \<Rightarrow> world \<Rightarrow> error + node" where
  "os_Lstat path w =
     (case refused w (SysLstat path) of
        Some e \<Rightarrow> Inl (PathError ''lstat'' path e)
      | None \<Rightarrow>
          (case lookup (tree w) (locate w path) of
             None \<Rightarrow> Inl (PathError ''lstat'' path ENOENT)
           | Some n \<Rightarrow> Inr n))"

definition os_Stat :: "string \<Rightarrow> world \<Rightarrow> error + node" where
  "os_Stat path w =
     (case refused w (SysStat path) of
        Some e \<Rightarrow> Inl (PathError ''stat'' path e)
      | None \<Rightarrow>
          (case resolve maxSymlinks w path of
             Inl e \<Rightarrow> Inl (PathError ''stat'' path e)
           | Inr cs \<Rightarrow>
               (case lookup (tree w) cs of
                  None \<Rightarrow> Inl (PathError ''stat'' path ENOENT)
                | Some n \<Rightarrow> Inr n)))"

definition os_Readlink :: "string \<Rightarrow> world \<Rightarrow> error + string" where
  "os_Readlink path w =
     (case refused w (SysReadlink path) of
        Some e \<Rightarrow> Inl (PathError ''readlink'' path e)
      | None \<Rightarrow>
          (case lookup (tree w) (locate w path) of
             None \<Rightarrow> Inl (PathError ''readlink'' path ENOENT)
           | Some (Link t) \<Rightarrow> Inr t
           | Some n \<Rightarrow> Inl (PathError ''readlink'' path EINVAL)))"

definition os_ReadFile :: "string \<Rightarrow> world \<Rightarrow> error + string" where
  "os_ReadFile path w =
     (case refused w (SysReadFile path) of
        Some e \<Rightarrow> Inl (PathError ''open'' path e)
      | None \<Rightarrow>
          (case resolve maxSymlinks w path of
             Inl e \<Rightarrow> Inl (PathError ''open'' path e)
           | Inr cs \<Rightarrow>
               (case lookup (tree w) cs of
                  None \<Rightarrow> Inl (PathError ''open'' path ENOENT)
                | Some (Regular content) \<Rightarrow> Inr content
                | Some n \<Rightarrow> Inl (PathError ''read'' path EISDIR))))"

text \<open>
  \<open>os.OpenFile(path, O_CREATE|O_EXCL|O_WRONLY, 0644)\<close>: the file is created
  empty, and the call fails when anything, a dangling link included, is at
  the path. The handle returned is the path.
\<close>

definition os_OpenFile_excl :: "string \<Rightarrow> world \<Rightarrow> (error + string) \<times> world" where
  "os_OpenFile_excl path w =
     (case refused w (SysOpenFile path) of
        Some e \<Rightarrow> (Inl (PathError ''open'' path e), w)
      | None \<Rightarrow>
          (case lookup (tree w) (locate w path) of
             Some n \<Rightarrow> (Inl (PathError ''open'' path EEXIST), w)
           | None \<Rightarrow>
               if parent_is_dir (tree w) (locate w path) then
                 (Inr path, w\<lparr>tree := put (tree w) (locate w path) (Some (Regular []))\<rparr>)
               else (Inl (PathError ''open'' path ENOENT), w)))"

text \<open>
  Writing through the handle of a file just opened, from its first byte. A
  refused write leaves the file as it is.
\<close>

definition File_Write :: "string \<Rightarrow> string \<Rightarrow> world \<Rightarrow> error option \<times> world" where
  "File_Write handle content w =
     (case refused w (SysWrite handle) of
        Some e \<Rightarrow> (Some (PathError ''write'' handle e), w)
      | None \<Rightarrow>
          (case lookup (tree w) (locate w handle) of
             Some (Regular old) \<Rightarrow>
               (None, w\<lparr>tree := put (tree w) (locate w handle)
                              (Some (Regular (content @ drop (length content) old)))\<rparr>)
           | _ \<Rightarrow> (None, w)))"

text \<open>\<open>os.WriteFile\<close>: create or truncate, following a link at the path.\<close>

definition os_WriteFile :: "string \<Rightarrow> string \<Rightarrow> world \<Rightarrow> error option \<times> world" where
  "os_WriteFile path content w =
     (case refused w (SysWriteFile path) of
        Some e \<Rightarrow> (Some (PathError ''open'' path e), w)
      | None \<Rightarrow>
          (case resolve maxSymlinks w path of
             Inl e \<Rightarrow> (Some (PathError ''open'' path e), w)
           | Inr cs \<Rightarrow>
               (case lookup (tree w) cs of
                  Some (Directory es) \<Rightarrow> (Some (PathError ''open'' path EISDIR), w)
                | Some n \<Rightarrow> (None, w\<lparr>tree := put (tree w) cs (Some (Regular content))\<rparr>)
                | None \<Rightarrow>
                    if parent_is_dir (tree w) cs then
                      (None, w\<lparr>tree := put (tree w) cs (Some (Regular content))\<rparr>)
                    else (Some (PathError ''open'' path ENOENT), w))))"

definition os_Remove :: "string \<Rightarrow> world \<Rightarrow> error option \<times> world" where
  "os_Remove path w =
     (case refused w (SysRemove path) of
        Some e \<Rightarrow> (Some (PathError ''remove'' path e), w)
      | None \<Rightarrow>
          (case lookup (tree w) (locate w path) of
             None \<Rightarrow> (Some (PathError ''remove'' path ENOENT), w)
           | Some (Directory (e # es)) \<Rightarrow> (Some (PathError ''remove'' path ENOTEMPTY), w)
           | Some n \<Rightarrow>
               if locate w path = [] then (Some (PathError ''remove'' path EPERM), w)
               else (None, w\<lparr>tree := put (tree w) (locate w path) None\<rparr>)))"

definition os_Symlink :: "string \<Rightarrow> string \<Rightarrow> world \<Rightarrow> error option \<times> world" where
  "os_Symlink oldname newname w =
     (case refused w (SysSymlink oldname newname) of
        Some e \<Rightarrow> (Some (LinkError ''symlink'' oldname newname e), w)
      | None \<Rightarrow>
          (case lookup (tree w) (locate w newname) of
             Some n \<Rightarrow> (Some (LinkError ''symlink'' oldname newname EEXIST), w)
           | None \<Rightarrow>
               if parent_is_dir (tree w) (locate w newname) then
                 (None, w\<lparr>tree := put (tree w) (locate w newname) (Some (Link oldname))\<rparr>)
               else (Some (LinkError ''symlink'' oldname newname ENOENT), w)))"

text \<open>
  \<open>os.MkdirAll\<close>: the directory and every missing parent are created;
  \<open>None\<close> when something that is not a directory is in the way.
\<close>

fun mkdirs :: "node \<Rightarrow> string list \<Rightarrow> node option" where
  "mkdirs (Directory es) [] = Some (Directory es)"
| "mkdirs (Directory es) (c # cs) =
     (case mkdirs (case map_of es c of None \<Rightarrow> Directory [] | Some m \<Rightarrow> m) cs of
        None \<Rightarrow> None
      | Some m' \<Rightarrow> Some (Directory (AList.update c m' es)))"
| "mkdirs n cs = None"

definition os_MkdirAll :: "string \<Rightarrow> world \<Rightarrow> error option \<times> world" where
  "os_MkdirAll path w =
     (case refused w (SysMkdirAll path) of
        Some e \<Rightarrow> (Some (PathError ''mkdir'' path e), w)
      | None \<Rightarrow>
          (case mkdirs (tree w) (locate w path) of
             None \<Rightarrow> (Some (PathError ''mkdir'' path ENOTDIR), w)
           | Some t \<Rightarrow> (None, w\<lparr>tree := t\<rparr>)))"

definition filepath_Abs :: "string \<Rightarrow> world \<Rightarrow> error + string" where
  "filepath_Abs path w =
     (if filepath_IsAbs path then Inr (filepath_Clean path)
      else
        (case os_Getwd w of
           Inl err \<Rightarrow> Inl err
         | Inr d \<Rightarrow> Inr (filepath_Join [d, path])))"

text \<open>
  \<open>filepath.Rel\<close>: both paths are cleaned and compared element by element;
  what is left of the base is climbed with \<open>..\<close>, what is left of the target
  is appended.
\<close>

fun rel_strip :: "string list \<Rightarrow> string list \<Rightarrow> string list \<times> string list" where
  "rel_strip (b # bs) (t # ts) = (if b = t then rel_strip bs ts else (b # bs, t # ts))"
| "rel_strip bs ts = (bs, ts)"

definition path_elems :: "string \<Rightarrow> string list" where
  "path_elems p = filter (\<lambda>e. e \<noteq> []) (strings_Split p CHR ''/'')"

definition filepath_Rel :: "string \<Rightarrow> string \<Rightarrow> error + string" where
  "filepath_Rel basepath targpath =
     (let base = filepath_Clean basepath;
          targ = filepath_Clean targpath
      in if targ = base then Inr ''.''
         else
           let base = (if base = ''.'' then [] else base) in
           if strings_HasPrefix base ''/'' \<noteq> strings_HasPrefix targ ''/'' then
             Inl (New (''Rel: can't make '' @ targpath @ '' relative to '' @ basepath))
           else
             (case rel_strip (path_elems base) (path_elems targ) of
                (bs, ts) \<Rightarrow>
                  if bs \<noteq> [] \<and> ts \<noteq> [] \<and> hd bs = ''..'' then
                    Inl (New (''Rel: can't make '' @ targpath @ '' relative to '' @ basepath))
                  else Inr (strings_Join (map (\<lambda>b. ''..'') bs @ ts) ''/'')))"

section \<open>Package storage: construction and the storage directory\<close>

definition NewPathConverter :: "string \<Rightarrow> string \<Rightarrow> world \<Rightarrow> error + PathConverter" where
  "NewPathConverter user repoName w =
     (case os_UserHomeDir w of
        Inl err \<Rightarrow> Inl (Errorf ''failed to get home directory: '' err)
      | Inr home \<Rightarrow>
          let storageRoot = filepath_Join [home, ''.claude'', ''claude-md'', user]
          in Inr \<lparr>StorageRoot = storageRoot, RepoName = repoName\<rparr>)"

definition EnsureStorageDir :: "PathConverter \<Rightarrow> world \<Rightarrow> error option \<times> world" where
  "EnsureStorageDir pc w =
     (let dir = GetRepoStorageDir pc in
      case os_MkdirAll dir w of
        (Some err, w') \<Rightarrow> (Some (Errorf ''failed to create storage directory: '' err), w')
      | (None, w') \<Rightarrow> (None, w'))"

section \<open>Package files: discovery\<close>

record ClaudeFile =
  AbsolutePath :: string
  RepoRelativePath :: string
  IsSymlink :: bool

definition files_IsSymlink :: "string \<Rightarrow> world \<Rightarrow> error + bool" where
  "files_IsSymlink path w =
     (case os_Lstat path w of
        Inl err \<Rightarrow> Inl err
      | Inr info \<Rightarrow> Inr (ModeSymlink info))"

text \<open>
  \<open>filepath.Walk\<close>. The walk function receives the path, the file
  information (absent when the entry could not be inspected) and the error
  met on the way, and works on a state \<open>'s\<close> (the variables it captures); it
  returns its error and the new state. \<open>readDirNames\<close> lists the names of a
  directory in sorted order; \<open>walk_names\<close> is the loop of \<open>walk\<close> over them.
\<close>

type_synonym 's WalkFunc =
  "string \<Rightarrow> node option \<Rightarrow> error option \<Rightarrow> 's \<Rightarrow> error option \<times> 's"

definition readDirNames ::
  "world \<Rightarrow> string \<Rightarrow> (string \<times> node) list \<Rightarrow> error + string list" where
  "readDirNames w dirname es =
     (case refused w (SysReadDir dirname) of
        Some e \<Rightarrow> Inl (PathError ''open'' dirname e)
      | None \<Rightarrow> Inr (sort (map fst es)))"

function walk :: "world \<Rightarrow> 's WalkFunc \<Rightarrow> string \<Rightarrow> node \<Rightarrow> 's \<Rightarrow> error option \<times> 's"
  and walk_names ::
    "world \<Rightarrow> 's WalkFunc \<Rightarrow> string \<Rightarrow> (string \<times> node) list \<Rightarrow> string list \<Rightarrow> 's
       \<Rightarrow> error option \<times> 's"
where
  "walk w walkFn path (Regular c) s = walkFn path (Some (Regular c)) None s"
| "walk w walkFn path (Link t) s = walkFn path (Some (Link t)) None s"
| "walk w walkFn path (Directory es) s =
     (case readDirNames w path es of
        Inl err \<Rightarrow> walkFn path (Some (Directory es)) (Some err) s
      | Inr names \<Rightarrow>
          (case walkFn path (Some (Directory es)) None s of
             (Some err1, s1) \<Rightarrow> (Some err1, s1)
           | (None, s1) \<Rightarrow> walk_names w walkFn path es names s1))"
| "walk_names w walkFn path es [] s = (None, s)"
| "walk_names w walkFn path es (name # names) s =
     (let filename = filepath_Join [path, name] in
      case (case refused w (SysLstat filename) of
              Some e \<Rightarrow> Inl (PathError ''lstat'' filename e)
            | None \<Rightarrow>
                (case map_of es name of
                   None \<Rightarrow> Inl (PathError ''lstat'' filename ENOENT)
                 | Some fileInfo \<Rightarrow> Inr fileInfo)) of
        Inl err \<Rightarrow>
          (case walkFn filename None (Some err) s of
             (Some err1, s1) \<Rightarrow>
               if err1 \<noteq> SkipDir then (Some err1, s1)
               else walk_names w walkFn path es names s1
           | (None, s1) \<Rightarrow> walk_names w walkFn path es names s1)
      | Inr fileInfo \<Rightarrow>
          (case walk w walkFn filename fileInfo s of
             (Some err1, s1) \<Rightarrow>
               if \<not> IsDir fileInfo \<or> err1 \<noteq> SkipDir then (Some err1, s1)
               else walk_names w walkFn path es names s1
           | (None, s1) \<Rightarrow> walk_names w walkFn path es names s1))"
  by pat_completeness auto
termination
proof -
  have sz: "size m < size_list (size_prod (\<lambda>x. 0) size) es"
    if "map_of es name = Some m" for es :: "(string \<times> node) list" and name m
    using that by (induction es) (auto split: if_splits)
  show ?thesis
    by (relation "inv_image (less_than <*lex*> less_than)
          (\<lambda>x. case x of
             Inl (w, walkFn, path, n, s) \<Rightarrow> (size n, 0)
           | Inr (w, walkFn, path, es, names, s) \<Rightarrow>
               (size_list (size_prod (\<lambda>x. 0) size) es, Suc (length names)))")
       (auto dest: sz split: option.splits)
qed

definition filepath_Walk :: "string \<Rightarrow> 's WalkFunc \<Rightarrow> world \<Rightarrow> 's \<Rightarrow> error option \<times> 's" where
  "filepath_Walk root walkFn w s =
     (case (case os_Lstat root w of
              Inl err \<Rightarrow> walkFn root None (Some err) s
            | Inr info \<Rightarrow> walk w walkFn root info s) of
        (err, s1) \<Rightarrow> (if err = Some SkipDir then None else err, s1))"

text \<open>
  The function literal that \<open>FindClaudeFiles\<close> hands to the walk; its state
  is the captured slice \<open>claudeFiles\<close>. The walk hands over file information
  whenever it hands over no error.
\<close>

definition FindClaudeFiles_walkFn :: "string \<Rightarrow> world \<Rightarrow> ClaudeFile list WalkFunc" where
  "FindClaudeFiles_walkFn repoRoot w path info err claudeFiles =
     (case err of
        Some e \<Rightarrow> (Some e, claudeFiles)
      | None \<Rightarrow>
          (case info of
             None \<Rightarrow> (Some (New ''nil pointer dereference''), claudeFiles)
           | Some info \<Rightarrow>
               if IsDir info \<and> filepath_Base path = ''.git'' then (Some SkipDir, claudeFiles)
               else if \<not> IsDir info \<and> strings_EqualFold (filepath_Base path) ''CLAUDE.md'' then
                 (case filepath_Rel repoRoot path of
                    Inl e \<Rightarrow> (Some e, claudeFiles)
                  | Inr relPath \<Rightarrow>
                      (case files_IsSymlink path w of
                         Inl e \<Rightarrow> (Some e, claudeFiles)
                       | Inr isSymlink \<Rightarrow>
                           (None, claudeFiles @
                              [\<lparr>AbsolutePath = path, RepoRelativePath = relPath,
                                IsSymlink = isSymlink\<rparr>])))
               else (None, claudeFiles)))"

text \<open>The two results of \<open>FindClaudeFiles\<close>: the slice and the error.\<close>

definition FindClaudeFiles :: "string \<Rightarrow> world \<Rightarrow> ClaudeFile list \<times> error option" where
  "FindClaudeFiles repoRoot w =
     (case filepath_Walk repoRoot (FindClaudeFiles_walkFn repoRoot w) w [] of
        (err, claudeFiles) \<Rightarrow> (claudeFiles, err))"

record StoredFile =
  StorageFilename :: string
  RepoRelativePath :: string
  StoragePath :: string

section \<open>Package operations\<close>

subsection \<open>SaveFiles\<close>

record SaveResult =
  RepoRelativePath :: string
  StoragePath :: string
  Success :: bool
  Skipped :: bool
  SkipReason :: string
  Warning :: string
  Error :: "error option"

record SaveOptions =
  RepoRoot :: string
  PathConverter :: PathConverter

text \<open>
  The loop body of \<open>SaveFiles\<close> is written in two parts.
  \<open>SaveFiles_store\<close> is its second part, from the creation of the storage
  file to the symlink: \<open>result\<close> is the record so far, \<open>content\<close> what was
  read from the original file.
\<close>

definition SaveFiles_store ::
  "ClaudeFile \<Rightarrow> string \<Rightarrow> SaveResult \<Rightarrow> string \<Rightarrow> string \<Rightarrow> world
     \<Rightarrow> SaveResult \<times> world" where
  "SaveFiles_store file rel result storagePath content w1 =
     (
      case os_OpenFile_excl storagePath w1 of
        (Inl err, w2) \<Rightarrow>
          if os_IsExist err then
            (result\<lparr>SaveResult.Skipped := True,
                    SaveResult.SkipReason := ''storage file exists'',
                    SaveResult.Warning :=
                      ''Skipping '' @ rel @ '': storage file already exists at ''
                        @ storagePath\<rparr>, w2)
          else
            (result\<lparr>SaveResult.Skipped := True,
                    SaveResult.SkipReason := ''storage file creation failed'',
                    SaveResult.Error := Some err,
                    SaveResult.Warning :=
                      ''Skipping '' @ rel @ '': failed to create storage file: ''
                        @ error_string err\<rparr>, w2)
      | (Inr storageFile, w2) \<Rightarrow>
      case File_Write storageFile content w2 of
        (Some err, w3) \<Rightarrow>
          (result\<lparr>SaveResult.Skipped := True, SaveResult.SkipReason := ''write failed'',
                  SaveResult.Error := Some err,
                  SaveResult.Warning :=
                    ''Skipping '' @ rel @ '': failed to write to storage: ''
                      @ error_string err\<rparr>,
           snd (os_Remove storagePath w3))
      | (None, w3) \<Rightarrow>
      case os_Remove (AbsolutePath file) w3 of
        (Some err, w4) \<Rightarrow>
          (result\<lparr>SaveResult.Skipped := True, SaveResult.SkipReason := ''remove failed'',
                  SaveResult.Error := Some err,
                  SaveResult.Warning :=
                    ''Skipping '' @ rel @ '': failed to remove original file: ''
                      @ error_string err\<rparr>,
           snd (os_Remove storagePath w4))
      | (None, w4) \<Rightarrow>
      case filepath_Abs storagePath w4 of
        Inl err \<Rightarrow>
          (let result = result\<lparr>SaveResult.Skipped := True,
                               SaveResult.SkipReason := ''absolute path failed'',
                               SaveResult.Error := Some err\<rparr>
           in case os_WriteFile (AbsolutePath file) content w4 of
                (Some restoreErr, w5) \<Rightarrow>
                  (result\<lparr>SaveResult.Error := Some (Critical restoreErr err),
                          SaveResult.Warning :=
                            ''CRITICAL: '' @ rel
                              @ '' - original file deleted but restore failed. Content saved in ''
                              @ storagePath\<rparr>, w5)
              | (None, w5) \<Rightarrow>
                  (result\<lparr>SaveResult.Warning :=
                            ''Skipping '' @ rel @ '': failed to get absolute path: ''
                              @ error_string err\<rparr>,
                   snd (os_Remove storagePath w5)))
      | Inr absStoragePath \<Rightarrow>
      case os_Symlink absStoragePath (AbsolutePath file) w4 of
        (Some err, w5) \<Rightarrow>
          (let result = result\<lparr>SaveResult.Skipped := True,
                               SaveResult.SkipReason := ''symlink creation failed'',
                               SaveResult.Error := Some err\<rparr>
           in case os_WriteFile (AbsolutePath file) content w5 of
                (Some restoreErr, w6) \<Rightarrow>
                  (result\<lparr>SaveResult.Error := Some (Critical restoreErr err),
                          SaveResult.Warning :=
                            ''CRITICAL: '' @ rel
                              @ '' - original file deleted but restore failed. Content saved in ''
                              @ storagePath\<rparr>, w6)
              | (None, w6) \<Rightarrow>
                  (result\<lparr>SaveResult.Warning :=
                            ''Skipping '' @ rel @ '': failed to create symlink: ''
                              @ error_string err\<rparr>,
                   snd (os_Remove storagePath w6)))
      | (None, w5) \<Rightarrow> (result\<lparr>SaveResult.Success := True\<rparr>, w5))"

text \<open>
  One turn of the loop of \<open>SaveFiles\<close>: the record for one file and the
  world it leaves. Each \<open>continue\<close> of the source is a branch that returns.
  The first part validates, computes the storage path, ensures the storage
  directory and reads the file.
\<close>

definition SaveFiles_body :: "SaveOptions \<Rightarrow> ClaudeFile \<Rightarrow> world \<Rightarrow> SaveResult \<times> world" where
  "SaveFiles_body opts file w =
     (let rel = ClaudeFile.RepoRelativePath file;
          result = \<lparr>SaveResult.RepoRelativePath = rel, SaveResult.StoragePath = [],
                    SaveResult.Success = False, SaveResult.Skipped = False,
                    SaveResult.SkipReason = [], SaveResult.Warning = [],
                    SaveResult.Error = None\<rparr>
      in
      case ValidatePath rel of
        Some err \<Rightarrow>
          (result\<lparr>SaveResult.Skipped := True, SaveResult.SkipReason := ''invalid path'',
                  SaveResult.Warning := ''Skipping '' @ rel @ '': '' @ error_string err,
                  SaveResult.Error := Some err\<rparr>, w)
      | None \<Rightarrow>
      if ClaudeFile.IsSymlink file then
        (result\<lparr>SaveResult.Skipped := True, SaveResult.SkipReason := ''already symlink''\<rparr>, w)
      else
      case GetStoragePath (SaveOptions.PathConverter opts) rel of
        Inl err \<Rightarrow>
          (result\<lparr>SaveResult.Skipped := True,
                  SaveResult.SkipReason := ''path conversion error'',
                  SaveResult.Error := Some err,
                  SaveResult.Warning := ''Skipping '' @ rel @ '': '' @ error_string err\<rparr>, w)
      | Inr storagePath \<Rightarrow>
      let result = result\<lparr>SaveResult.StoragePath := storagePath\<rparr> in
      case EnsureStorageDir (SaveOptions.PathConverter opts) w of
        (Some err, w1) \<Rightarrow>
          (result\<lparr>SaveResult.Skipped := True,
                  SaveResult.SkipReason := ''storage directory creation failed'',
                  SaveResult.Error := Some err,
                  SaveResult.Warning :=
                    ''Skipping '' @ rel @ '': failed to create storage directory: ''
                      @ error_string err\<rparr>, w1)
      | (None, w1) \<Rightarrow>
      case os_ReadFile (AbsolutePath file) w1 of
        Inl err \<Rightarrow>
          (result\<lparr>SaveResult.Skipped := True, SaveResult.SkipReason := ''read failed'',
                  SaveResult.Error := Some err,
                  SaveResult.Warning :=
                    ''Skipping '' @ rel @ '': failed to read file: '' @ error_string err\<rparr>, w1)
      | Inr content \<Rightarrow>
      SaveFiles_store file rel result storagePath content w1)"

fun SaveFiles :: "ClaudeFile list \<Rightarrow> SaveOptions \<Rightarrow> world \<Rightarrow> SaveResult list \<times> world" where
  "SaveFiles [] opts w = ([], w)"
| "SaveFiles (file # claudeFiles) opts w =
     (case SaveFiles_body opts file w of
        (result, w') \<Rightarrow>
          (case SaveFiles claudeFiles opts w' of
             (results, w'') \<Rightarrow> (result # results, w'')))"

subsection \<open>RestoreFiles\<close>

record RestoreResult =
  RepoRelativePath :: string
  Success :: bool
  Skipped :: bool
  SkipReason :: string
  Warning :: string
  StoragePath :: string
  Error :: "error option"

record RestoreOptions =
  RepoRoot :: string

definition RestoreFiles_body ::
  "RestoreOptions \<Rightarrow> StoredFile \<Rightarrow> world \<Rightarrow> RestoreResult \<times> world" where
  "RestoreFiles_body opts stored w =
     (let rel = StoredFile.RepoRelativePath stored;
          result = \<lparr>RestoreResult.RepoRelativePath = rel, RestoreResult.Success = False,
                    RestoreResult.Skipped = False, RestoreResult.SkipReason = [],
                    RestoreResult.Warning = [],
                    RestoreResult.StoragePath = StoredFile.StoragePath stored,
                    RestoreResult.Error = None\<rparr>;
          targetPath = filepath_Join [RestoreOptions.RepoRoot opts, rel]
      in
      case filepath_Abs (RestoreOptions.RepoRoot opts) w of
        Inl err \<Rightarrow>
          (result\<lparr>RestoreResult.Skipped := True,
                  RestoreResult.SkipReason := ''failed to get absolute repo path'',
                  RestoreResult.Error := Some err,
                  RestoreResult.Warning := ''Skipping '' @ rel @ '': '' @ error_string err\<rparr>, w)
      | Inr absRepoRoot \<Rightarrow>
      case filepath_Abs targetPath w of
        Inl err \<Rightarrow>
          (result\<lparr>RestoreResult.Skipped := True,
                  RestoreResult.SkipReason := ''failed to get absolute target path'',
                  RestoreResult.Error := Some err,
                  RestoreResult.Warning := ''Skipping '' @ rel @ '': '' @ error_string err\<rparr>, w)
      | Inr absTargetPath \<Rightarrow>
      if (case filepath_Rel absRepoRoot absTargetPath of
            Inl err \<Rightarrow> True
          | Inr relPath \<Rightarrow> strings_HasPrefix relPath ''..'') then
        (result\<lparr>RestoreResult.Skipped := True,
                RestoreResult.SkipReason := ''path escapes repository'',
                RestoreResult.Warning :=
                  ''Skipping '' @ rel @ '': path would escape repository bounds (storage: ''
                    @ StoredFile.StoragePath stored @ '')''\<rparr>, w)
      else
      let parentDir = filepath_Dir targetPath in
      if (case os_Stat parentDir w of Inl err \<Rightarrow> os_IsNotExist err | Inr info \<Rightarrow> False) then
        (result\<lparr>RestoreResult.Skipped := True,
                RestoreResult.SkipReason := ''parent dir missing'',
                RestoreResult.Warning :=
                  ''Skipping '' @ rel @ '': parent directory does not exist (storage: ''
                    @ StoredFile.StoragePath stored @ '')''\<rparr>, w)
      else
      case os_Lstat targetPath w of
        Inr info \<Rightarrow>
          if ModeSymlink info then
            (case os_Readlink targetPath w of
               Inl err \<Rightarrow>
                 (result\<lparr>RestoreResult.Skipped := True,
                         RestoreResult.SkipReason := ''symlink read failed'',
                         RestoreResult.Error := Some err,
                         RestoreResult.Warning :=
                           ''Skipping '' @ rel @ '': failed to read symlink: ''
                             @ error_string err\<rparr>, w)
             | Inr currentTarget \<Rightarrow>
                 (case filepath_Abs (StoredFile.StoragePath stored) w of
                    Inl err \<Rightarrow>
                      (result\<lparr>RestoreResult.Skipped := True,
                              RestoreResult.SkipReason := ''absolute path failed'',
                              RestoreResult.Error := Some err,
                              RestoreResult.Warning :=
                                ''Skipping '' @ rel @ '': failed to get absolute path: ''
                                  @ error_string err\<rparr>, w)
                  | Inr absStoragePath \<Rightarrow>
                      if currentTarget = absStoragePath then
                        (result\<lparr>RestoreResult.Skipped := True,
                                RestoreResult.SkipReason := ''already correct''\<rparr>, w)
                      else
                        (result\<lparr>RestoreResult.Skipped := True,
                                RestoreResult.SkipReason := ''wrong target'',
                                RestoreResult.Warning :=
                                  ''Skipping '' @ rel @ '': symlink exists but points to ''
                                    @ currentTarget @ '' (storage: ''
                                    @ StoredFile.StoragePath stored @ '')''\<rparr>, w)))
          else
            (result\<lparr>RestoreResult.Skipped := True,
                    RestoreResult.SkipReason := ''file exists'',
                    RestoreResult.Warning :=
                      ''Skipping '' @ rel @ '': regular file already exists (storage: ''
                        @ StoredFile.StoragePath stored @ '')''\<rparr>, w)
      | Inl lstatErr \<Rightarrow>
      case filepath_Abs (StoredFile.StoragePath stored) w of
        Inl err \<Rightarrow>
          (result\<lparr>RestoreResult.Skipped := True,
                  RestoreResult.SkipReason := ''absolute path failed'',
                  RestoreResult.Error := Some err,
                  RestoreResult.Warning :=
                    ''Skipping '' @ rel @ '': failed to get absolute path: ''
                      @ error_string err\<rparr>, w)
      | Inr absStoragePath \<Rightarrow>
      case os_Symlink absStoragePath targetPath w of
        (Some err, w1) \<Rightarrow>
          (result\<lparr>RestoreResult.Skipped := True,
                  RestoreResult.SkipReason := ''symlink creation failed'',
                  RestoreResult.Error := Some err,
                  RestoreResult.Warning :=
                    ''Skipping '' @ rel @ '': failed to create symlink: ''
                      @ error_string err\<rparr>, w1)
      | (None, w1) \<Rightarrow> (result\<lparr>RestoreResult.Success := True\<rparr>, w1))"

fun RestoreFiles ::
  "StoredFile list \<Rightarrow> RestoreOptions \<Rightarrow> world \<Rightarrow> RestoreResult list \<times> world" where
  "RestoreFiles [] opts w = ([], w)"
| "RestoreFiles (stored # storedFiles) opts w =
     (case RestoreFiles_body opts stored w of
        (result, w') \<Rightarrow>
          (case RestoreFiles storedFiles opts w' of
             (results, w'') \<Rightarrow> (result # results, w'')))"

subsection \<open>ClearSymlinks\<close>

record ClearResult =
  RepoRelativePath :: string
  Success :: bool
  Skipped :: bool
  SkipReason :: string
  Error :: "error option"

record ClearOptions =
  RepoRoot :: string
  PathConverter :: PathConverter

text \<open>
  The loop of \<open>ClearSymlinks\<close> over the discovered files; a file that is
  not a symlink leaves no record.
\<close>

fun ClearSymlinks_loop ::
  "string \<Rightarrow> ClaudeFile list \<Rightarrow> world \<Rightarrow> ClearResult list \<times> world" where
  "ClearSymlinks_loop storageDir [] w = ([], w)"
| "ClearSymlinks_loop storageDir (file # claudeFiles) w =
     (if \<not> ClaudeFile.IsSymlink file then ClearSymlinks_loop storageDir claudeFiles w
      else
        let result = \<lparr>ClearResult.RepoRelativePath = ClaudeFile.RepoRelativePath file,
                      ClearResult.Success = False, ClearResult.Skipped = False,
                      ClearResult.SkipReason = [], ClearResult.Error = None\<rparr>
        in
        case (case os_Readlink (AbsolutePath file) w of
                Inl err \<Rightarrow>
                  (result\<lparr>ClearResult.Skipped := True,
                          ClearResult.SkipReason := ''failed to read symlink'',
                          ClearResult.Error := Some err\<rparr>, w)
              | Inr target \<Rightarrow>
                  let absTarget = (case filepath_Abs target w of
                                     Inl err \<Rightarrow> target
                                   | Inr a \<Rightarrow> a)
                  in
                  if \<not> strings_HasPrefix absTarget storageDir then
                    (result\<lparr>ClearResult.Skipped := True,
                            ClearResult.SkipReason := ''symlink points outside storage''\<rparr>, w)
                  else
                    (case os_Remove (AbsolutePath file) w of
                       (Some err, w1) \<Rightarrow> (result\<lparr>ClearResult.Error := Some err\<rparr>, w1)
                     | (None, w1) \<Rightarrow> (result\<lparr>ClearResult.Success := True\<rparr>, w1))) of
          (result, w') \<Rightarrow>
            (case ClearSymlinks_loop storageDir claudeFiles w' of
               (results, w'') \<Rightarrow> (result # results, w'')))"

definition ClearSymlinks :: "ClearOptions \<Rightarrow> world \<Rightarrow> ClearResult list \<times> world" where
  "ClearSymlinks opts w =
     (case FindClaudeFiles (ClearOptions.RepoRoot opts) w of
        (claudeFiles, Some err) \<Rightarrow> ([], w)
      | (claudeFiles, None) \<Rightarrow>
          let storageDir = GetRepoStorageDir (ClearOptions.PathConverter opts)
          in ClearSymlinks_loop storageDir claudeFiles w)"

section \<open>Package output and the save command\<close>

text \<open>
  The two writers of \<open>Output\<close> are the texts written to them so far. Each
  print call is given its formatted text and adds a newline, as the format
  string of the source does. \<open>Itoa\<close> is the decimal text that \<open>%d\<close> prints
  for a counter (counters only count up from zero).
\<close>

record Output =
  Stdout :: string
  Stderr :: string

definition PrintInfo :: "string \<Rightarrow> Output \<Rightarrow> Output" where
  "PrintInfo text out = out\<lparr>Stdout := Stdout out @ text @ [CHR 0x0A]\<rparr>"

definition PrintSuccess :: "string \<Rightarrow> Output \<Rightarrow> Output" where
  "PrintSuccess text out = out\<lparr>Stdout := Stdout out @ text @ [CHR 0x0A]\<rparr>"

definition PrintError :: "string \<Rightarrow> Output \<Rightarrow> Output" where
  "PrintError text out = out\<lparr>Stderr := Stderr out @ text @ [CHR 0x0A]\<rparr>"

fun Itoa :: "nat \<Rightarrow> string" where
  "Itoa n =
     (if n < 10 then [''0123456789'' ! n]
      else Itoa (n div 10) @ [''0123456789'' ! (n mod 10)])"

declare Itoa.simps [simp del]

text \<open>
  The loop of \<open>runSave\<close> over the results, with the counters \<open>saved\<close>,
  \<open>skipped\<close> and \<open>errors\<close>.
\<close>

fun runSave_loop ::
  "SaveResult list \<Rightarrow> nat \<times> nat \<times> nat \<Rightarrow> Output \<Rightarrow> (nat \<times> nat \<times> nat) \<times> Output" where
  "runSave_loop [] (saved, skipped, errors) out = ((saved, skipped, errors), out)"
| "runSave_loop (result # results) (saved, skipped, errors) out =
     (if SaveResult.Success result then
        runSave_loop results (saved + 1, skipped, errors)
          (PrintSuccess (''Saved: '' @ SaveResult.RepoRelativePath result) out)
      else if SaveResult.Skipped result then
        runSave_loop results (saved, skipped + 1, errors)
          (if SaveResult.Warning result \<noteq> [] then
             PrintInfo (''Warning: '' @ SaveResult.Warning result) out
           else out)
      else if SaveResult.Error result \<noteq> None then
        runSave_loop results (saved, skipped, errors + 1)
          (PrintError (''Error: '' @ SaveResult.Warning result) out)
      else runSave_loop results (saved, skipped, errors) out)"

text \<open>
  \<open>runSave\<close> from the discovery on, given the repository root and the
  converter that its preamble has computed.
\<close>

definition runSave_operate ::
  "string \<Rightarrow> PathConverter \<Rightarrow> Output \<Rightarrow> world \<Rightarrow> error option \<times> Output \<times> world" where
  "runSave_operate rootPath converter out w =
     (case FindClaudeFiles rootPath w of
        (claudeFiles, Some err) \<Rightarrow>
          (Some err, PrintError (''Error finding CLAUDE.md files: '' @ error_string err) out, w)
      | (claudeFiles, None) \<Rightarrow>
          if length claudeFiles = 0 then
            (None, PrintInfo ''No CLAUDE.md files found in repository'' out, w)
          else
            (case SaveFiles claudeFiles
                    \<lparr>SaveOptions.RepoRoot = rootPath, SaveOptions.PathConverter = converter\<rparr> w of
               (results, w') \<Rightarrow>
                 (case runSave_loop results (0, 0, 0) out of
                    ((saved, skipped, errors), out') \<Rightarrow>
                      (None,
                       PrintInfo ([CHR 0x0A] @ ''Summary: '' @ Itoa saved @ '' saved, ''
                                    @ Itoa skipped @ '' skipped, '' @ Itoa errors @ '' errors'')
                         out',
                       w'))))"

section \<open>Example worlds\<close>

text \<open>
  A home directory \<open>/home/u\<close> with a repository \<open>/home/u/repo\<close> that holds
  one \<open>CLAUDE.md\<close>; the system refuses nothing.
\<close>

definition example_tree :: node where
  "example_tree =
     Directory [(''home'', Directory [(''u'', Directory
       [(''repo'', Directory [(''CLAUDE.md'', Regular ''hello'')])])])]"

definition example_world :: world where
  "example_world =
     \<lparr>tree = example_tree, wd = ''/home/u/repo'', HOME = ''/home/u'',
      refused = (\<lambda>c. None)\<rparr>"

definition example_converter :: PathConverter where
  "example_converter =
     \<lparr>StorageRoot = ''/home/u/.claude/claude-md/u'', RepoName = ''repo.git''\<rparr>"

definition example_file :: ClaudeFile where
  "example_file =
     \<lparr>AbsolutePath = ''/home/u/repo/CLAUDE.md'',
      ClaudeFile.RepoRelativePath = ''CLAUDE.md'', IsSymlink = False\<rparr>"

definition example_options :: SaveOptions where
  "example_options =
     \<lparr>SaveOptions.RepoRoot = ''/home/u/repo'',
      SaveOptions.PathConverter = example_converter\<rparr>"

text \<open>The same world where the original file cannot be removed.\<close>

definition world_original_kept :: world where
  "world_original_kept =
     example_world\<lparr>refused :=
       (\<lambda>c. if c = SysRemove ''/home/u/repo/CLAUDE.md'' then Some EACCES else None)\<rparr>"

text \<open>The same world where the system refuses every removal.\<close>

definition world_no_removal :: world where
  "world_no_removal =
     example_world\<lparr>refused := (\<lambda>c. case c of SysRemove p \<Rightarrow> Some EPERM | _ \<Rightarrow> None)\<rparr>"


section \<open>Facts about the library functions\<close>

lemma strings_Contains_iff: "strings_Contains s sub \<longleftrightarrow> (\<exists>a b. s = a @ sub @ b)"
proof (induction s)
  case Nil
  then show ?case by auto
next
  case (Cons c cs)
  show ?case
  proof
    assume "strings_Contains (c # cs) sub"
    then consider "strings_HasPrefix (c # cs) sub" | "strings_Contains cs sub" by auto
    then show "\<exists>a b. c # cs = a @ sub @ b"
    proof cases
      case 1
      then have "c # cs = [] @ sub @ drop (length sub) (c # cs)"
        unfolding strings_HasPrefix_def by (metis append_Nil append_take_drop_id)
      then show ?thesis by blast
    next
      case 2
      with Cons.IH obtain a b where "cs = a @ sub @ b" by blast
      then have "c # cs = (c # a) @ sub @ b" by simp
      then show ?thesis by blast
    qed
  next
    assume "\<exists>a b. c # cs = a @ sub @ b"
    then obtain a b where ab: "c # cs = a @ sub @ b" by blast
    show "strings_Contains (c # cs) sub"
    proof (cases a)
      case Nil
      with ab have "strings_HasPrefix (c # cs) sub" by (simp add: strings_HasPrefix_def)
      then show ?thesis by simp
    next
      case (Cons x a')
      with ab have "cs = a' @ sub @ b" by simp
      with Cons.IH have "strings_Contains cs sub" by blast
      then show ?thesis by simp
    qed
  qed
qed

lemma strings_Split_not_Nil: "strings_Split s c \<noteq> []"
  by (induction s) (auto split: list.splits)

lemma strings_Join_Split: "strings_Join (strings_Split s c) [c] = s"
proof (induction s)
  case Nil
  then show ?case by simp
next
  case (Cons a s)
  obtain p ps where pps: "strings_Split s c = p # ps"
    using strings_Split_not_Nil [of s c] by (cases "strings_Split s c") auto
  with Cons show ?case by (cases ps) auto
qed

lemma part_in_Join: "p \<in> set ps \<Longrightarrow> \<exists>a b. strings_Join ps sep = a @ p @ b"
proof (induction ps sep rule: strings_Join.induct)
  case (1 sep)
  then show ?case by simp
next
  case (2 x sep)
  then have "strings_Join [x] sep = [] @ p @ []" by simp
  then show ?case by blast
next
  case (3 x y ys sep)
  show ?case
  proof (cases "p = x")
    case True
    then have "strings_Join (x # y # ys) sep = [] @ p @ (sep @ strings_Join (y # ys) sep)" by simp
    then show ?thesis by blast
  next
    case False
    with 3 obtain a b where "strings_Join (y # ys) sep = a @ p @ b" by auto
    then have "strings_Join (x # y # ys) sep = (x @ sep @ a) @ p @ b" by simp
    then show ?thesis by blast
  qed
qed

lemma Contains_part:
  assumes "p \<in> set (strings_Split s c)" and "strings_Contains p sub"
  shows "strings_Contains s sub"
proof -
  from part_in_Join [OF assms(1), of "[c]"] obtain a b where "s = a @ p @ b"
    by (auto simp: strings_Join_Split)
  moreover from assms(2) obtain a' b' where "p = a' @ sub @ b'"
    by (auto simp: strings_Contains_iff)
  ultimately have "s = (a @ a') @ sub @ (b' @ b)" by simp
  then show ?thesis unfolding strings_Contains_iff by blast
qed


lemma Contains_dd_Cons:
  "strings_Contains (a # s) [d, d] \<longleftrightarrow> (a = d \<and> s \<noteq> [] \<and> hd s = d) \<or> strings_Contains s [d, d]"
  by (cases s) (auto simp: strings_HasPrefix_def)

lemma Contains_dd_sep:
  "c \<noteq> d \<Longrightarrow> strings_Contains (x @ c # y) [d, d] \<longleftrightarrow>
     strings_Contains x [d, d] \<or> strings_Contains y [d, d]"
proof (induction x)
  case Nil
  then show ?case by (auto simp: strings_HasPrefix_def)
next
  case (Cons a x)
  then show ?case
    by (cases x) (auto simp: strings_HasPrefix_def)
qed

lemma Contains_dd_Join:
  "c \<noteq> d \<Longrightarrow> \<forall>p \<in> set ps. \<not> strings_Contains p [d, d] \<Longrightarrow>
     \<not> strings_Contains (strings_Join ps [c]) [d, d]"
  by (induction ps "[c]" rule: strings_Join.induct) (auto simp: Contains_dd_sep)

lemma clean_elems_subset:
  "''..'' \<notin> set es \<Longrightarrow> set (clean_elems rooted out es) \<subseteq> set out \<union> set es"
  by (induction rooted out es rule: clean_elems.induct) auto

lemma dd_self: "strings_Contains ''..'' ''..''"
  by (simp add: strings_HasPrefix_def)

lemma filepath_Clean_no_dotdot:
  assumes "\<not> strings_Contains p ''..''"
  shows "\<not> strings_Contains (filepath_Clean p) ''..''"
proof (cases "p = []")
  case True
  then show ?thesis by (simp add: filepath_Clean_def strings_HasPrefix_def)
next
  case False
  let ?es = "strings_Split p CHR ''/''"
  define r where "r = (hd p = CHR ''/'')"
  let ?out = "clean_elems r [] ?es"
  have parts: "\<forall>e \<in> set ?es. \<not> strings_Contains e ''..''"
    using assms Contains_part by blast
  then have "''..'' \<notin> set ?es" using dd_self by blast
  then have "set ?out \<subseteq> set ?es" using clean_elems_subset [of ?es _ "[]"] by simp
  with parts have "\<forall>e \<in> set ?out. \<not> strings_Contains e ''..''" by blast
  then have j: "\<not> strings_Contains (strings_Join ?out ''/'') ''..''"
    by (intro Contains_dd_Join) auto
  then have "\<not> strings_Contains (''/'' @ strings_Join ?out ''/'') ''..''"
    using Contains_dd_sep [of "CHR ''/''" "CHR ''.''" "[]" "strings_Join ?out ''/''"]
    by simp
  with j False show ?thesis
    unfolding filepath_Clean_def Let_def r_def [symmetric]
    by (cases r) (simp_all add: strings_HasPrefix_def)
qed

lemma filepath_Join_no_dotdot:
  "\<forall>p \<in> set ps. \<not> strings_Contains p ''..'' \<Longrightarrow>
     filepath_Join ps = [] \<or> \<not> strings_Contains (filepath_Join ps) ''..''"
proof (induction ps)
  case Nil
  then show ?case by simp
next
  case (Cons e es)
  show ?case
  proof (cases "e = []")
    case True
    with Cons show ?thesis by simp
  next
    case False
    from Cons.prems have "\<not> strings_Contains (strings_Join (e # es) ''/'') ''..''"
      by (intro Contains_dd_Join) auto
    then have "\<not> strings_Contains (filepath_Clean (strings_Join (e # es) ''/'')) ''..''"
      by (rule filepath_Clean_no_dotdot)
    with False show ?thesis by simp
  qed
qed

lemma strings_Contains_single: "strings_Contains s [c] = (c \<in> set s)"
  by (induction s) (auto simp: strings_HasPrefix_def)

lemma strings_Split_no_sep: "c \<notin> set s \<Longrightarrow> strings_Split s c = [s]"
  by (induction s) auto

lemma strings_Split_append:
  "c \<notin> set x \<Longrightarrow> strings_Split (x @ c # y) c = x # strings_Split y c"
  by (induction x) auto

lemma strings_Split_Join:
  "ps \<noteq> [] \<Longrightarrow> \<forall>p \<in> set ps. c \<notin> set p \<Longrightarrow> strings_Split (strings_Join ps [c]) c = ps"
  by (induction ps "[c]" rule: strings_Join.induct)
     (auto simp: strings_Split_no_sep strings_Split_append)

lemma set_part_subset: "p \<in> set (strings_Split s c) \<Longrightarrow> set p \<subseteq> set s"
proof -
  assume "p \<in> set (strings_Split s c)"
  from part_in_Join [OF this, of "[c]"] show ?thesis
    by (auto simp: strings_Join_Split)
qed

lemma strings_Split_hd: "s \<noteq> [] \<Longrightarrow> hd s \<noteq> c \<Longrightarrow> hd (strings_Split s c) \<noteq> []"
  by (cases s) (auto split: list.splits)

lemma strings_Split_length: "c \<in> set s \<Longrightarrow> 2 \<le> length (strings_Split s c)"
proof (induction s)
  case Nil
  then show ?case by simp
next
  case (Cons a s)
  show ?case
  proof (cases "a = c")
    case True
    have "strings_Split s c \<noteq> []" by (rule strings_Split_not_Nil)
    then have "1 \<le> length (strings_Split s c)" by (cases "strings_Split s c") auto
    with True show ?thesis by simp
  next
    case False
    with Cons.prems have "c \<in> set s" by simp
    from Cons.IH [OF this] False show ?thesis
      by (auto split: list.splits)
  qed
qed

section \<open>The file tree\<close>

lemma lookup_leaf [simp]: "cs \<noteq> [] \<Longrightarrow> lookup (Regular c) cs = None"
  "cs \<noteq> [] \<Longrightarrow> lookup (Link l) cs = None"
  by (cases cs; simp)+

lemma lookup_nonempty_dir:
  "lookup m cs = Some x \<Longrightarrow> cs \<noteq> [] \<Longrightarrow> \<exists>e es. m = Directory (e # es)"
proof (cases m)
  case (Directory es)
  assume "lookup m cs = Some x" "cs \<noteq> []"
  with Directory show ?thesis
    by (cases cs; cases es) (auto split: option.splits)
qed auto

lemma not_parent_is_dir_leaf [simp]:
  "\<not> parent_is_dir (Regular c) cs" "\<not> parent_is_dir (Link l) cs"
  by (cases "butlast cs"; simp add: parent_is_dir_def)+

lemma lookup_put_None: "ds \<noteq> [] \<Longrightarrow> lookup (put t ds None) ds = None"
proof (induction t ds "None :: node option" rule: put.induct)
  case (1 es c)
  then show ?case by (simp add: delete_conv')
next
  case (2 es c d cs)
  then show ?case by (auto simp: update_conv' split: option.splits)
qed simp_all

lemma lookup_put_Some:
  "ds \<noteq> [] \<Longrightarrow> lookup t ds = Some x \<or> parent_is_dir t ds \<Longrightarrow>
   lookup (put t ds (Some v)) ds = Some v"
proof (induction t ds "Some v" rule: put.induct)
  case (1 es c)
  then show ?case by (simp add: update_conv')
next
  case (2 es c d cs)
  then show ?case
    by (auto simp: update_conv' parent_is_dir_def split: option.splits)
qed auto

lemma lookup_put_other_None:
  "lookup t cs = Some x \<Longrightarrow> \<not> IsDir x \<Longrightarrow> cs \<noteq> ds \<Longrightarrow>
   (\<forall>e es. lookup t ds \<noteq> Some (Directory (e # es))) \<Longrightarrow>
   lookup (put t ds None) cs = Some x"
proof (induction t ds "None :: node option" arbitrary: cs rule: put.induct)
  case (1 es c)
  show ?case
  proof (cases cs)
    case Nil
    with 1 show ?thesis by auto
  next
    case (Cons c' cs')
    show ?thesis
    proof (cases "c' = c")
      case True
      with 1 Cons obtain m where m: "map_of es c = Some m" "lookup m cs' = Some x"
        by (auto split: option.splits)
      from True Cons 1(3) have "cs' \<noteq> []" by simp
      with m(2) obtain e es' where "m = Directory (e # es')"
        using lookup_nonempty_dir by blast
      with m(1) 1(4) show ?thesis by simp
    next
      case False
      with 1 Cons show ?thesis by (auto simp: delete_conv' split: option.splits)
    qed
  qed
next
  case (2 es c d ds')
  show ?case
  proof (cases cs)
    case Nil
    with 2 show ?thesis by auto
  next
    case (Cons c' cs')
    show ?thesis
    proof (cases "map_of es c")
      case None
      with 2 show ?thesis by simp
    next
      case (Some m)
      show ?thesis
      proof (cases "c' = c")
        case True
        with 2(2) Cons Some have l: "lookup m cs' = Some x" by simp
        from True Cons 2(4) have ne: "cs' \<noteq> d # ds'" by simp
        from 2(5) Some have rm: "\<forall>e es. lookup m (d # ds') \<noteq> Some (Directory (e # es))" by simp
        from 2(1) [OF Some l 2(3) ne rm] True Cons Some show ?thesis
          by (simp add: update_conv')
      next
        case False
        with 2 Cons Some show ?thesis by (auto simp: update_conv' split: option.splits)
      qed
    qed
  qed
qed auto

lemma lookup_put_other_Some:
  "lookup t cs = Some x \<Longrightarrow> \<not> IsDir x \<Longrightarrow> lookup t ds = None \<Longrightarrow>
   lookup (put t ds (Some v)) cs = Some x"
proof (induction t ds "Some v" arbitrary: cs rule: put.induct)
  case (1 es c)
  show ?case
  proof (cases cs)
    case Nil
    with 1 show ?thesis by auto
  next
    case (Cons c' cs')
    with 1 show ?thesis by (auto simp: update_conv' split: option.splits if_splits)
  qed
next
  case (2 es c d ds')
  show ?case
  proof (cases cs)
    case Nil
    with 2 show ?thesis by auto
  next
    case (Cons c' cs')
    show ?thesis
    proof (cases "map_of es c")
      case None
      with 2 show ?thesis by simp
    next
      case (Some m)
      show ?thesis
      proof (cases "c' = c")
        case True
        with 2(2) Cons Some have l: "lookup m cs' = Some x" by simp
        from 2(4) Some have ab: "lookup m (d # ds') = None" by simp
        from 2(1) [OF Some l 2(3) ab] True Cons Some show ?thesis
          by (simp add: update_conv')
      next
        case False
        with 2 Cons Some show ?thesis by (auto simp: update_conv' split: option.splits)
      qed
    qed
  qed
qed auto

lemma lookup_put_overwrite:
  "ds \<noteq> [] \<Longrightarrow> lookup t ds = Some x \<Longrightarrow> lookup (put t ds (Some v)) ds = Some v"
  using lookup_put_Some by blast

lemma lookup_put_create:
  "parent_is_dir t ds \<Longrightarrow> lookup (put t ds (Some v)) ds = Some v"
  using lookup_put_Some [of ds t _ v] by (auto simp: parent_is_dir_def)

section \<open>The operating system calls\<close>

lemma os_Remove_env:
  "os_Remove p w = (e, w') \<Longrightarrow> wd w' = wd w \<and> refused w' = refused w \<and> HOME w' = HOME w"
  by (auto simp: os_Remove_def split: option.splits node.splits list.splits if_splits)

lemma os_Remove_failed: "os_Remove p w = (Some err, w') \<Longrightarrow> w' = w"
  by (auto simp: os_Remove_def split: option.splits node.splits list.splits if_splits)

lemma os_Symlink_env:
  "os_Symlink old new w = (e, w') \<Longrightarrow> wd w' = wd w \<and> refused w' = refused w \<and> HOME w' = HOME w"
  by (auto simp: os_Symlink_def split: option.splits if_splits)

lemma os_OpenFile_excl_env:
  "os_OpenFile_excl p w = (r, w') \<Longrightarrow> wd w' = wd w \<and> refused w' = refused w \<and> HOME w' = HOME w"
  by (auto simp: os_OpenFile_excl_def split: option.splits if_splits)

lemma File_Write_env:
  "File_Write h c w = (e, w') \<Longrightarrow> wd w' = wd w \<and> refused w' = refused w \<and> HOME w' = HOME w"
  by (auto simp: File_Write_def split: option.splits node.splits)

lemma locate_env: "wd w' = wd w \<Longrightarrow> locate w' p = locate w p"
  by (simp add: locate_def)

lemma os_OpenFile_excl_created:
  assumes "os_OpenFile_excl p w = (Inr h, w')"
  shows "h = p \<and> locate w p \<noteq> [] \<and> lookup (tree w') (locate w p) = Some (Regular [])"
proof -
  from assms have par: "parent_is_dir (tree w) (locate w p)"
    and t: "tree w' = put (tree w) (locate w p) (Some (Regular []))" and h: "h = p"
    by (auto simp: os_OpenFile_excl_def split: option.splits if_splits)
  from par have ne: "locate w p \<noteq> []" by (simp add: parent_is_dir_def)
  with par t h show ?thesis by (simp add: lookup_put_create)
qed

lemma File_Write_regular:
  assumes "File_Write p content w = (None, w')"
    and "lookup (tree w) (locate w p) = Some (Regular old)" and "locate w p \<noteq> []"
  shows "\<exists>c. lookup (tree w') (locate w p) = Some (Regular c)"
  using assms
  by (auto simp: File_Write_def lookup_put_overwrite split: option.splits)

lemma os_Remove_gone:
  assumes "refused w (SysRemove p) = None"
    and "lookup (tree w) (locate w p) = Some (Regular c)" and "locate w p \<noteq> []"
  shows "lookup (tree (snd (os_Remove p w))) (locate w p) = None"
  using assms by (simp add: os_Remove_def lookup_put_None)

lemma os_Remove_leaf:
  assumes "os_Remove p w = (e, w')" and "lookup (tree w) cs = Some x" and "\<not> IsDir x"
    and "cs \<noteq> locate w p"
  shows "lookup (tree w') cs = Some x"
proof (cases e)
  case (Some err)
  with assms show ?thesis by (auto dest: os_Remove_failed)
next
  case None
  with assms(1) obtain n where n: "lookup (tree w) (locate w p) = Some n"
    "\<forall>e es. n \<noteq> Directory (e # es)" and t: "tree w' = put (tree w) (locate w p) None"
    by (auto simp: os_Remove_def split: option.splits node.splits list.splits if_splits)
  from n have "\<forall>e es. lookup (tree w) (locate w p) \<noteq> Some (Directory (e # es))" by simp
  from lookup_put_other_None [OF assms(2,3,4) this] t show ?thesis by simp
qed

lemma os_Symlink_leaf:
  assumes "os_Symlink old new w = (e, w')" and "lookup (tree w) cs = Some x" and "\<not> IsDir x"
  shows "lookup (tree w') cs = Some x"
proof (cases e)
  case (Some err)
  with assms(1) have "w' = w"
    by (auto simp: os_Symlink_def split: option.splits if_splits)
  with assms(2) show ?thesis by simp
next
  case None
  with assms(1) have ab: "lookup (tree w) (locate w new) = None"
    and t: "tree w' = put (tree w) (locate w new) (Some (Link old))"
    by (auto simp: os_Symlink_def split: option.splits if_splits)
  from lookup_put_other_Some [OF assms(2,3) ab] t show ?thesis by simp
qed


lemma SaveFiles_store_remove_failed:
  assumes op: "os_OpenFile_excl storagePath w1 = (Inr storageFile, w2)"
    and wr: "File_Write storageFile content w2 = (None, w3)"
    and rm: "os_Remove (AbsolutePath file) w3 = (Some err, w4)"
  shows "SaveFiles_store file rel result storagePath content w1 =
      (result\<lparr>SaveResult.Skipped := True, SaveResult.SkipReason := ''remove failed'',
              SaveResult.Error := Some err,
              SaveResult.Warning :=
                ''Skipping '' @ rel @ '': failed to remove original file: ''
                  @ error_string err\<rparr>,
       snd (os_Remove storagePath w3))"
proof -
  from rm have "w4 = w3" by (rule os_Remove_failed)
  with rm have rm': "os_Remove (AbsolutePath file) w3 = (Some err, w3)" by simp
  show ?thesis
    by (simp add: SaveFiles_store_def op wr rm')
qed

lemma SaveFiles_store_rollback:
  assumes op: "os_OpenFile_excl storagePath w1 = (Inr storageFile, w2)"
    and wr: "File_Write storageFile content w2 = (None, w3)"
    and rf: "refused w1 (SysRemove storagePath) = None"
  shows "lookup (tree (snd (os_Remove storagePath w3))) (locate w1 storagePath) = None"
proof -
  from os_OpenFile_excl_created [OF op]
  have h: "storageFile = storagePath" and ne: "locate w1 storagePath \<noteq> []"
    and l2: "lookup (tree w2) (locate w1 storagePath) = Some (Regular [])" by simp_all
  from os_OpenFile_excl_env [OF op] have e2: "wd w2 = wd w1" "refused w2 = refused w1" by simp_all
  from File_Write_env [OF wr] e2 have e3: "wd w3 = wd w1" "refused w3 = refused w1" by simp_all
  have loc2: "locate w2 storagePath = locate w1 storagePath" using e2(1) by (rule locate_env)
  have loc3: "locate w3 storagePath = locate w1 storagePath" using e3(1) by (rule locate_env)
  have "\<exists>c. lookup (tree w3) (locate w2 storagePath) = Some (Regular c)"
  proof (rule File_Write_regular)
    show "File_Write storagePath content w2 = (None, w3)" using wr h by simp
    show "lookup (tree w2) (locate w2 storagePath) = Some (Regular [])" using l2 loc2 by simp
    show "locate w2 storagePath \<noteq> []" using ne loc2 by simp
  qed
  then obtain c where l3: "lookup (tree w3) (locate w3 storagePath) = Some (Regular c)"
    using loc2 loc3 by auto
  from rf e3 have r3: "refused w3 (SysRemove storagePath) = None" by simp
  from ne loc3 have ne3: "locate w3 storagePath \<noteq> []" by simp
  from os_Remove_gone [OF r3 l3 ne3] loc3 show ?thesis by simp
qed

section \<open>The flags of the result records\<close>

lemma filepath_Clean_not_Nil: "filepath_Clean p \<noteq> []"
  by (simp add: filepath_Clean_def Let_def)

lemma SaveFiles_store_flags:
  "SaveFiles_store file rel result storagePath content w1 = (r, w') \<Longrightarrow>
   \<not> SaveResult.Success result \<Longrightarrow> \<not> SaveResult.Skipped result \<Longrightarrow>
   (SaveResult.Success r \<or> SaveResult.Skipped r) \<and> \<not> (SaveResult.Success r \<and> SaveResult.Skipped r)"
  unfolding SaveFiles_store_def Let_def
  by (auto split: sum.splits option.splits prod.splits if_splits)

lemma SaveFiles_body_flags:
  "SaveFiles_body opts file w = (r, w') \<Longrightarrow>
   (SaveResult.Success r \<or> SaveResult.Skipped r) \<and> \<not> (SaveResult.Success r \<and> SaveResult.Skipped r)"
  unfolding SaveFiles_body_def Let_def
  by (auto split: sum.splits option.splits prod.splits if_splits dest!: SaveFiles_store_flags)

lemma SaveFiles_flags:
  "SaveFiles claudeFiles opts w = (results, w') \<Longrightarrow> r \<in> set results \<Longrightarrow>
   (SaveResult.Success r \<or> SaveResult.Skipped r) \<and> \<not> (SaveResult.Success r \<and> SaveResult.Skipped r)"
proof (induction claudeFiles arbitrary: w results w')
  case Nil
  then show ?case by simp
next
  case (Cons f claudeFiles)
  obtain r1 w1 where b: "SaveFiles_body opts f w = (r1, w1)" by (cases "SaveFiles_body opts f w")
  obtain rs w2 where t: "SaveFiles claudeFiles opts w1 = (rs, w2)" by (cases "SaveFiles claudeFiles opts w1")
  from Cons.prems(1) b t have res: "results = r1 # rs" by simp
  with Cons.prems(2) consider "r = r1" | "r \<in> set rs" by auto
  then show ?case
  proof cases
    case 1
    with SaveFiles_body_flags [OF b] show ?thesis by simp
  next
    case 2
    with Cons.IH [OF t] show ?thesis by simp
  qed
qed

lemma RestoreFiles_body_flags:
  "RestoreFiles_body opts stored w = (r, w') \<Longrightarrow>
   (RestoreResult.Success r \<or> RestoreResult.Skipped r) \<and> \<not> (RestoreResult.Success r \<and> RestoreResult.Skipped r)"
  unfolding RestoreFiles_body_def Let_def
  by (auto split: sum.splits option.splits prod.splits if_splits)

lemma RestoreFiles_flags:
  "RestoreFiles storedFiles opts w = (results, w') \<Longrightarrow> r \<in> set results \<Longrightarrow>
   \<not> (RestoreResult.Success r \<and> RestoreResult.Skipped r)"
proof (induction storedFiles arbitrary: w results w')
  case Nil
  then show ?case by simp
next
  case (Cons stored storedFiles)
  obtain r1 w1 where b: "RestoreFiles_body opts stored w = (r1, w1)" by (cases "RestoreFiles_body opts stored w")
  obtain rs w2 where t: "RestoreFiles storedFiles opts w1 = (rs, w2)" by (cases "RestoreFiles storedFiles opts w1")
  from Cons.prems(1) b t have res: "results = r1 # rs" by simp
  with Cons.prems(2) consider "r = r1" | "r \<in> set rs" by auto
  then show ?case
  proof cases
    case 1
    with RestoreFiles_body_flags [OF b] show ?thesis by simp
  next
    case 2
    with Cons.IH [OF t] show ?thesis by simp
  qed
qed

lemma ClearSymlinks_loop_flags:
  "ClearSymlinks_loop storageDir claudeFiles w = (results, w') \<Longrightarrow> r \<in> set results \<Longrightarrow>
   \<not> (ClearResult.Success r \<and> ClearResult.Skipped r)"
proof (induction claudeFiles arbitrary: w results w')
  case Nil
  then show ?case by simp
next
  case (Cons f claudeFiles)
  show ?case
  proof (cases "ClaudeFile.IsSymlink f")
    case False
    with Cons show ?thesis by simp
  next
    case True
    with Cons.prems Cons.IH show ?thesis
      by (auto simp: Let_def split: sum.splits option.splits prod.splits if_splits)
  qed
qed

lemma ClearSymlinks_flags:
  "ClearSymlinks opts w = (results, w') \<Longrightarrow> r \<in> set results \<Longrightarrow>
   \<not> (ClearResult.Success r \<and> ClearResult.Skipped r)"
  unfolding ClearSymlinks_def Let_def
  by (auto split: prod.splits option.splits dest: ClearSymlinks_loop_flags)

lemma runSave_loop_no_errors:
  "\<forall>r \<in> set results. SaveResult.Success r \<or> SaveResult.Skipped r \<Longrightarrow>
   snd (snd (fst (runSave_loop results (saved, skipped, errors) out))) = errors
   \<and> Stderr (snd (runSave_loop results (saved, skipped, errors) out)) = Stderr out"
  by (induction results arbitrary: saved skipped out)
     (auto simp: PrintSuccess_def PrintInfo_def)

section \<open>The path converter\<close>

text \<open>
  Claim C1, as amended. The round trip holds for every repository-relative
  path \<open>p\<close> that is already in cleaned form (as the paths produced by the
  discovery walk are), has no tilde and does not contain the two-character
  sequence \<open>..\<close> anywhere: \<open>ConvertToStorageName\<close> succeeds and
  \<open>ConvertToRepoPath\<close> of its result is \<open>p\<close> again. The path separator is
  \<open>/\<close>.
\<close>

theorem roundtrip_clean_paths:
  assumes clean: "filepath_Clean p = p"
    and rel: "\<not> filepath_IsAbs p"
    and tilde: "\<not> strings_Contains p ''~''"
    and dots: "\<not> strings_Contains p ''..''"
  shows "\<exists>s. ConvertToStorageName pc p = Inr s \<and> ConvertToRepoPath pc s = p"
proof -
  have ne: "p \<noteq> []"
    using clean by (auto simp: filepath_Clean_def)
  have root: "ConvertToRepoPath pc p = p"
    using tilde dots by (simp add: ConvertToRepoPath_def)
  have base: "filepath_Base ''CLAUDE.md'' = ''CLAUDE.md''"
    by (simp add: filepath_Base_def)
  let ?parts = "strings_Split p CHR ''/''"
  let ?s = "strings_Join ?parts ''~''"
  have t: "CHR ''~'' \<notin> set p" using tilde by (simp add: strings_Contains_single)
  show ?thesis
  proof (cases "p = ''CLAUDE.md'' \<or> p = filepath_Base p")
    case True
    then have "ConvertToStorageName pc p = Inr p"
      using tilde clean base by (auto simp: ConvertToStorageName_def ValidatePath_def)
    with root show ?thesis by simp
  next
    case False
    then have st: "ConvertToStorageName pc p = Inr ?s"
      using tilde clean by (simp add: ConvertToStorageName_def ValidatePath_def Let_def)
    have nt: "\<forall>q \<in> set ?parts. CHR ''~'' \<notin> set q"
      using t set_part_subset by blast
    have spl: "strings_Split ?s CHR ''~'' = ?parts"
      using nt by (simp add: strings_Split_Join strings_Split_not_Nil)
    have nd: "\<not> list_ex (\<lambda>part. part = ''..'' \<or> strings_Contains part ''..'') ?parts"
      using dots Contains_part dd_self by (auto simp: list_ex_iff)
    obtain e es where ees: "?parts = e # es"
      using strings_Split_not_Nil [of p "CHR ''/''"] by (cases ?parts) auto
    have "hd p \<noteq> CHR ''/''"
      using rel ne by (cases p) (auto simp: filepath_IsAbs_def strings_HasPrefix_def)
    with ne have "hd ?parts \<noteq> []" by (rule strings_Split_hd)
    with ees have "e \<noteq> []" by simp
    then have "filepath_Join ?parts = filepath_Clean (strings_Join ?parts ''/'')"
      using ees by simp
    also have "\<dots> = p" using clean by (simp add: strings_Join_Split)
    finally have j: "filepath_Join ?parts = p" .
    have "ConvertToRepoPath pc ?s = p"
    proof (cases "strings_Contains ?s ''~''")
      case True
      with spl nd j show ?thesis by (simp add: ConvertToRepoPath_def Let_def)
    next
      case False
      then have "CHR ''~'' \<notin> set ?s" by (simp add: strings_Contains_single)
      then have "strings_Split ?s CHR ''~'' = [?s]" by (rule strings_Split_no_sep)
      with spl have "?parts = [?s]" by simp
      then have "?s = filepath_Join ?parts" using j
        by (metis strings_Join.simps(2) strings_Join_Split)
      with j have "?s = p" by simp
      with root show ?thesis by simp
    qed
    with st show ?thesis by simp
  qed
qed

theorem roundtrip_clean_paths_witness:
  "filepath_Clean ''source/go/api/CLAUDE.md'' = ''source/go/api/CLAUDE.md''
   \<and> \<not> filepath_IsAbs ''source/go/api/CLAUDE.md''
   \<and> \<not> strings_Contains ''source/go/api/CLAUDE.md'' ''~''
   \<and> \<not> strings_Contains ''source/go/api/CLAUDE.md'' ''..''
   \<and> ConvertToStorageName \<lparr>StorageRoot = ''/home/u/.claude/claude-md/u'', RepoName = ''repo.git''\<rparr>
         ''source/go/api/CLAUDE.md'' = Inr ''source~go~api~CLAUDE.md''
   \<and> ConvertToRepoPath \<lparr>StorageRoot = ''/home/u/.claude/claude-md/u'', RepoName = ''repo.git''\<rparr>
         ''source~go~api~CLAUDE.md'' = ''source/go/api/CLAUDE.md''"
proof -
  have h1: "filepath_Clean ''source/go/api/CLAUDE.md'' = ''source/go/api/CLAUDE.md''"
    by (simp add: filepath_Clean_def)
  have h2: "\<not> filepath_IsAbs ''source/go/api/CLAUDE.md''"
    by (simp add: filepath_IsAbs_def strings_HasPrefix_def)
  have h3: "\<not> strings_Contains ''source/go/api/CLAUDE.md'' ''~''"
    by (simp add: strings_HasPrefix_def)
  have h4: "\<not> strings_Contains ''source/go/api/CLAUDE.md'' ''..''"
    by (simp add: strings_HasPrefix_def)
  have s: "ConvertToStorageName \<lparr>StorageRoot = ''/home/u/.claude/claude-md/u'', RepoName = ''repo.git''\<rparr>
         ''source/go/api/CLAUDE.md'' = Inr ''source~go~api~CLAUDE.md''"
    by (simp add: ConvertToStorageName_def ValidatePath_def filepath_Clean_def
        filepath_Base_def strings_HasPrefix_def)
  from roundtrip_clean_paths [OF h1 h2 h3 h4,
      of "\<lparr>StorageRoot = ''/home/u/.claude/claude-md/u'', RepoName = ''repo.git''\<rparr>"]
  show ?thesis using h1 h2 h3 h4 s by auto
qed

text \<open>
  Claim C1 as stated fails. The path \<open>v1..2/CLAUDE.md\<close> is relative, in
  cleaned form, without tilde and without a \<open>..\<close> component, and its storage
  name is rejected by \<open>ConvertToRepoPath\<close> (empty result); the path
  \<open>a//CLAUDE.md\<close> comes back as \<open>a/CLAUDE.md\<close>.
\<close>

theorem roundtrip_counterexample:
  "\<not> strings_Contains ''v1..2/CLAUDE.md'' ''~''
   \<and> ''..'' \<notin> set (strings_Split ''v1..2/CLAUDE.md'' CHR ''/'')
   \<and> filepath_Clean ''v1..2/CLAUDE.md'' = ''v1..2/CLAUDE.md''
   \<and> ConvertToStorageName \<lparr>StorageRoot = ''/home/u/.claude/claude-md/u'', RepoName = ''repo.git''\<rparr>
         ''v1..2/CLAUDE.md'' = Inr ''v1..2~CLAUDE.md''
   \<and> ConvertToRepoPath \<lparr>StorageRoot = ''/home/u/.claude/claude-md/u'', RepoName = ''repo.git''\<rparr>
         ''v1..2~CLAUDE.md'' = []
   \<and> \<not> strings_Contains ''a//CLAUDE.md'' ''~''
   \<and> ''..'' \<notin> set (strings_Split ''a//CLAUDE.md'' CHR ''/'')
   \<and> ConvertToStorageName \<lparr>StorageRoot = ''/home/u/.claude/claude-md/u'', RepoName = ''repo.git''\<rparr>
         ''a//CLAUDE.md'' = Inr ''a~CLAUDE.md''
   \<and> ConvertToRepoPath \<lparr>StorageRoot = ''/home/u/.claude/claude-md/u'', RepoName = ''repo.git''\<rparr>
         ''a~CLAUDE.md'' = ''a/CLAUDE.md''"
  by (simp add: ConvertToStorageName_def ConvertToRepoPath_def ValidatePath_def
      filepath_Clean_def filepath_Base_def strings_HasPrefix_def)

text \<open>
  Claim C9. Whatever the input, a non-empty result of \<open>ConvertToRepoPath\<close>
  contains no occurrence of the two-character sequence \<open>..\<close>.
\<close>

theorem ConvertToRepoPath_no_dotdot:
  "ConvertToRepoPath pc s \<noteq> [] \<longrightarrow> \<not> strings_Contains (ConvertToRepoPath pc s) ''..''"
proof (cases "strings_Contains s ''~''")
  case False
  then show ?thesis by (simp add: ConvertToRepoPath_def)
next
  case True
  let ?parts = "strings_Split s CHR ''~''"
  show ?thesis
  proof (cases "list_ex (\<lambda>part. part = ''..'' \<or> strings_Contains part ''..'') ?parts")
    case True
    with \<open>strings_Contains s ''~''\<close> show ?thesis by (simp add: ConvertToRepoPath_def)
  next
    case False
    then have "\<forall>p \<in> set ?parts. \<not> strings_Contains p ''..''"
      by (auto simp: list_ex_iff)
    from filepath_Join_no_dotdot [OF this] False \<open>strings_Contains s ''~''\<close>
    show ?thesis by (auto simp: ConvertToRepoPath_def Let_def)
  qed
qed

theorem ConvertToRepoPath_no_dotdot_witness:
  "ConvertToRepoPath \<lparr>StorageRoot = ''/home/u/.claude/claude-md/u'', RepoName = ''repo.git''\<rparr>
      ''source~go~api~CLAUDE.md'' \<noteq> []
   \<and> \<not> strings_Contains
        (ConvertToRepoPath \<lparr>StorageRoot = ''/home/u/.claude/claude-md/u'', RepoName = ''repo.git''\<rparr>
           ''source~go~api~CLAUDE.md'') ''..''"
proof -
  have ne: "ConvertToRepoPath \<lparr>StorageRoot = ''/home/u/.claude/claude-md/u'', RepoName = ''repo.git''\<rparr>
      ''source~go~api~CLAUDE.md'' \<noteq> []"
    by (simp add: ConvertToRepoPath_def filepath_Clean_def strings_HasPrefix_def)
  with ConvertToRepoPath_no_dotdot
    [of "\<lparr>StorageRoot = ''/home/u/.claude/claude-md/u'', RepoName = ''repo.git''\<rparr>"
        "''source~go~api~CLAUDE.md''"]
  show ?thesis by blast
qed

section \<open>ExtractRepoName\<close>

text \<open>
  Claim C7, as amended. The eight literal cases hold. For a URL that begins
  with \<open>git@\<close> and contains a colon, \<open>ExtractRepoName\<close> returns the last
  \<open>/\<close>-segment of the final colon-delimited part, and fails exactly when that
  segment is empty or the second colon-delimited part is empty (the split of
  such a URL always has at least two parts).
\<close>

theorem ExtractRepoName_cases:
  "ExtractRepoName ''git@github.com:user/repo.git'' = Inr ''repo.git''
   \<and> ExtractRepoName ''git@github.com:user/repo'' = Inr ''repo''
   \<and> ExtractRepoName ''https://github.com/user/repo.git'' = Inr ''repo.git''
   \<and> ExtractRepoName ''https://github.com/user/repo'' = Inr ''repo''
   \<and> ExtractRepoName [] = Inl (New ''remote URL is empty'')
   \<and> ExtractRepoName ''git@github.com'' = Inl (New ''invalid SSH URL format: git@github.com'')
   \<and> ExtractRepoName ''https://github.com'' =
        Inl (New ''invalid HTTPS URL format: https://github.com'')
   \<and> ExtractRepoName ''file:///path/to/repo'' =
        Inl (New ''unsupported URL format: file:///path/to/repo'')
   \<and> (strings_HasPrefix url ''git@'' \<and> strings_Contains url '':'' \<longrightarrow>
        2 \<le> length (strings_Split url CHR '':'')
        \<and> ExtractRepoName url =
          (if strings_Split url CHR '':'' ! 1 = [] \<or>
              last (strings_Split (last (strings_Split url CHR '':'')) CHR ''/'') = []
           then Inl (New (''invalid SSH URL format: '' @ url))
           else Inr (last (strings_Split (last (strings_Split url CHR '':'')) CHR ''/''))))"
proof -
  have lits:
    "ExtractRepoName ''git@github.com:user/repo.git'' = Inr ''repo.git''
     \<and> ExtractRepoName ''git@github.com:user/repo'' = Inr ''repo''
     \<and> ExtractRepoName ''https://github.com/user/repo.git'' = Inr ''repo.git''
     \<and> ExtractRepoName ''https://github.com/user/repo'' = Inr ''repo''
     \<and> ExtractRepoName [] = Inl (New ''remote URL is empty'')
     \<and> ExtractRepoName ''git@github.com'' = Inl (New ''invalid SSH URL format: git@github.com'')
     \<and> ExtractRepoName ''https://github.com'' =
          Inl (New ''invalid HTTPS URL format: https://github.com'')
     \<and> ExtractRepoName ''file:///path/to/repo'' =
          Inl (New ''unsupported URL format: file:///path/to/repo'')"
    by (simp add: ExtractRepoName_def strings_HasPrefix_def strings_TrimPrefix_def)
  have ssh: "2 \<le> length (strings_Split url CHR '':'')
        \<and> ExtractRepoName url =
          (if strings_Split url CHR '':'' ! 1 = [] \<or>
              last (strings_Split (last (strings_Split url CHR '':'')) CHR ''/'') = []
           then Inl (New (''invalid SSH URL format: '' @ url))
           else Inr (last (strings_Split (last (strings_Split url CHR '':'')) CHR ''/'')))"
    if pre: "strings_HasPrefix url ''git@''" and col: "strings_Contains url '':''"
  proof -
    from col have "CHR '':'' \<in> set url" by (simp add: strings_Contains_single)
    then have len: "2 \<le> length (strings_Split url CHR '':'')"
      by (rule strings_Split_length)
    from pre have ne: "url \<noteq> []" by (auto simp: strings_HasPrefix_def)
    have "ExtractRepoName url =
          (if strings_Split url CHR '':'' ! 1 = [] \<or>
              last (strings_Split (last (strings_Split url CHR '':'')) CHR ''/'') = []
           then Inl (New (''invalid SSH URL format: '' @ url))
           else Inr (last (strings_Split (last (strings_Split url CHR '':'')) CHR ''/'')))"
      using pre col len ne
      by (simp add: ExtractRepoName_def Let_def strings_Split_not_Nil)
    with len show ?thesis by simp
  qed
  from lits ssh show ?thesis by blast
qed

theorem ExtractRepoName_cases_witness:
  "strings_HasPrefix ''git@github.com:user/repo.git'' ''git@''
   \<and> strings_Contains ''git@github.com:user/repo.git'' '':''
   \<and> strings_Split ''git@github.com:user/repo.git'' CHR '':'' ! 1 = ''user/repo.git''
   \<and> last (strings_Split (last (strings_Split ''git@github.com:user/repo.git'' CHR '':''))
        CHR ''/'') = ''repo.git''
   \<and> ExtractRepoName ''git@github.com:user/repo.git'' = Inr ''repo.git''"
proof -
  have h: "strings_HasPrefix ''git@github.com:user/repo.git'' ''git@''
      \<and> strings_Contains ''git@github.com:user/repo.git'' '':''"
    by (simp add: strings_HasPrefix_def)
  have v: "strings_Split ''git@github.com:user/repo.git'' CHR '':'' ! 1 = ''user/repo.git''
      \<and> last (strings_Split (last (strings_Split ''git@github.com:user/repo.git'' CHR '':''))
        CHR ''/'') = ''repo.git''"
    by simp
  from ExtractRepoName_cases [of "''git@github.com:user/repo.git''"] h v
  show ?thesis by simp
qed

text \<open>
  Claim C7 as stated fails in its general part: for \<open>git@h::a/b\<close> the colon
  split has three parts and the last \<open>/\<close>-segment of the final part is
  \<open>b\<close>, yet \<open>ExtractRepoName\<close> fails, because the second colon-delimited
  part is empty.
\<close>

theorem ExtractRepoName_counterexample:
  "strings_HasPrefix ''git@h::a/b'' ''git@''
   \<and> strings_Contains ''git@h::a/b'' '':''
   \<and> length (strings_Split ''git@h::a/b'' CHR '':'') = 3
   \<and> last (strings_Split (last (strings_Split ''git@h::a/b'' CHR '':'')) CHR ''/'') = ''b''
   \<and> ExtractRepoName ''git@h::a/b'' = Inl (New ''invalid SSH URL format: git@h::a/b'')"
  by (simp add: ExtractRepoName_def strings_HasPrefix_def)

end
